theory Spec2Isabelle
  imports Complex_Main
begin

section \<open>CADhelp: the orthographic projection generator of cadapp.py\<close>

text \<open>
  The drawing routines of \<^verbatim>\<open>cadapp.py\<close> compute with Python floats and call the
  drawing methods of a PIL \<^verbatim>\<open>ImageDraw\<close> object. Here a float is a real number and
  \<^verbatim>\<open>math.cos\<close>, \<^verbatim>\<open>math.sin\<close>, \<^verbatim>\<open>math.sqrt\<close> are the real functions, so every
  statement below is about exact arithmetic: what rounding does to a value is
  not part of the model. The one place where the code tests a computed cosine
  for being exactly zero, the Info Calculator, takes the cosine as a parameter
  instead. The image is the ordered list of the drawing calls
  made on it; colours (always white) and fonts are left out, and so is what PIL
  itself does with the coordinates it is given. An exception is the left summand
  of a result.
\<close>

subsection \<open>Configuration constants\<close>

type_synonym box = "int \<times> int \<times> int \<times> int"
type_synonym point = "real \<times> real"

definition CANVAS_W :: int where "CANVAS_W = 1400"
definition CANVAS_H :: int where "CANVAS_H = 900"
definition MARGIN :: int where "MARGIN = 36"
definition XY_Y :: int where "XY_Y = CANVAS_H div 2"

definition LINE_HP :: nat where "LINE_HP = 4"
definition LINE_VP :: nat where "LINE_VP = 3"
definition LINE_CONST :: nat where "LINE_CONST = 1"

definition FRONT_BOX :: box where
  "FRONT_BOX = (MARGIN, MARGIN, CANVAS_W div 2 - MARGIN, XY_Y - 20)"
definition TOP_BOX :: box where
  "TOP_BOX = (MARGIN, XY_Y + 20, CANVAS_W div 2 - MARGIN, CANVAS_H - MARGIN)"
definition INFO_BOX :: box where
  "INFO_BOX = (CANVAS_W div 2 + 10, MARGIN, CANVAS_W - MARGIN, CANVAS_H - MARGIN)"

subsection \<open>The canvas\<close>

text \<open>
  A piece of text is kept as the pieces of the f-string that builds it: literal
  characters, a number printed by \<^verbatim>\<open>str\<close>, a float printed with a fixed number of
  decimals (\<^verbatim>\<open>:.2f\<close>), an integer, and a character outside ASCII by its name
  (the degree sign, the Greek letters alpha and beta).
\<close>

datatype piece = Lit string | Num real | Fix nat real | IntNum int | Sym string

type_synonym msg = "piece list"

datatype prim =
    Line "point list" nat
  | Ellipse real real real real nat
  | Rectangle real real real real nat
  | Polygon "point list"
  | Text point msg

type_synonym canvas = "prim list"

datatype error = TypeError

subsection \<open>Layout helpers\<close>

text \<open>\<^verbatim>\<open>draw_info_panel\<close>: the frame of the information box and one text per line,
  18 pixels apart. The argument is the text already split into its lines.\<close>

fun info_lines :: "real \<Rightarrow> real \<Rightarrow> msg list \<Rightarrow> prim list" where
  "info_lines x y [] = []"
| "info_lines x y (l # ls) = Text (x, y) l # info_lines x (y + 18) ls"

definition draw_info_panel :: "canvas \<Rightarrow> msg list \<Rightarrow> canvas" where
  "draw_info_panel draw text =
     (case INFO_BOX of (left, top', right, bottom) \<Rightarrow>
        draw @ [Rectangle (real_of_int left) (real_of_int top')
                          (real_of_int right) (real_of_int bottom) 1]
             @ info_lines (real_of_int (left + 8)) (real_of_int (top' + 8)) text)"

definition fit_scale_for_box :: "real \<Rightarrow> box \<Rightarrow> real" where
  "fit_scale_for_box max_mm box =
     (case box of (left, top', right, bottom) \<Rightarrow>
        let w = real_of_int (right - left - 20);
            h = real_of_int (bottom - top' - 20)
        in if max_mm = 0 then 1
           else let sx = w / max_mm; sy = h / max_mm in min sx sy)"

definition transform_to_box_coords :: "real \<Rightarrow> real \<Rightarrow> box \<Rightarrow> real \<Rightarrow> point" where
  "transform_to_box_coords x_mm y_mm box scale =
     (case box of (left, top', right, bottom) \<Rightarrow>
        let cx = real_of_int (left + right) / 2;
            cy = real_of_int (top' + bottom) / 2;
            px = cx + x_mm * scale;
            py = cy - y_mm * scale
        in (px, py))"

subsection \<open>Geometry helpers and calculations\<close>

definition radians :: "real \<Rightarrow> real" where
  "radians d = d * pi / 180"

definition degrees :: "real \<Rightarrow> real" where
  "degrees r = r * 180 / pi"

text \<open>
  The Info Calculator. \<^verbatim>\<open>None\<close> arguments and the \<^verbatim>\<open>None\<close> result are the \<open>None\<close> of
  \<open>option\<close>. The guard of \<^verbatim>\<open>true_from_apparent\<close> tests the computed cosine for being
  exactly zero, which depends on how the cosine is computed: the float
  \<^verbatim>\<open>math.cos(math.radians(90))\<close> is about 6.1e-17 and not zero, while the real cosine
  of a right angle is zero. Both functions therefore take the function
  \<open>cos_deg\<close> that stands for \<^verbatim>\<open>math.cos(math.radians(angle_deg))\<close> as a parameter, and
  nothing is assumed about where it vanishes. \<open>exact_cos_deg\<close> is the real cosine
  of an angle in degrees.
\<close>

definition exact_cos_deg :: "real \<Rightarrow> real" where
  "exact_cos_deg d = cos (radians d)"

definition apparent_length ::
  "(real \<Rightarrow> real) \<Rightarrow> real option \<Rightarrow> real option \<Rightarrow> real option" where
  "apparent_length cos_deg true_len angle_deg =
     (case (true_len, angle_deg) of
        (Some l, Some a) \<Rightarrow> Some \<bar>l * cos_deg a\<bar>
      | _ \<Rightarrow> None)"

definition true_from_apparent ::
  "(real \<Rightarrow> real) \<Rightarrow> real option \<Rightarrow> real option \<Rightarrow> real option" where
  "true_from_apparent cos_deg apparent angle_deg =
     (case (apparent, angle_deg) of
        (Some a, Some d) \<Rightarrow>
          if cos_deg d = 0 then None else Some (a / cos_deg d)
      | _ \<Rightarrow> None)"

text \<open>\<^verbatim>\<open>regular_polygon_vertices\<close>: \<^verbatim>\<open>int(n)\<close> truncates towards zero, fewer than
  three sides become three, and the loop runs over \<^verbatim>\<open>range(n)\<close>.\<close>

definition py_int :: "real \<Rightarrow> int" where
  "py_int x = (if 0 \<le> x then \<lfloor>x\<rfloor> else \<lceil>x\<rceil>)"

definition polygon_vertex :: "real \<Rightarrow> int \<Rightarrow> nat \<Rightarrow> point" where
  "polygon_vertex R n i =
     (let ang = - pi / 2 + 2 * pi * real i / real_of_int n
      in (R * cos ang, R * sin ang))"

definition regular_polygon_vertices :: "real \<Rightarrow> real \<Rightarrow> point list" where
  "regular_polygon_vertices n0 side =
     (let n = py_int n0;
          n = (if n < 3 then 3 else n);
          s = side;
          R = s / (2 * sin (pi / real_of_int n))
      in map (polygon_vertex R n) [0 ..< nat n])"

definition pdist :: "point \<Rightarrow> point \<Rightarrow> real" where
  "pdist p q = sqrt ((fst p - fst q)\<^sup>2 + (snd p - snd q)\<^sup>2)"

subsection \<open>The parameter dictionary\<close>

text \<open>
  Every drawing routine reads the same dictionary \<^verbatim>\<open>params\<close>. It is a record of the
  keys they read: field \<open>p_k\<close> is the key \<^verbatim>\<open>'k'\<close>. A numeric key is absent, present
  with the value \<^verbatim>\<open>None\<close> (the text parser stores \<^verbatim>\<open>None\<close> for a length or an angle
  of a line that it did not find), or holds a float. The keys \<^verbatim>\<open>shape\<close> and
  \<^verbatim>\<open>solid_type\<close> hold a string and \<^verbatim>\<open>sizes\<close> a list of floats, when present.
\<close>

datatype attr = Missing | Null | Val real

record params =
  p_infront :: attr
  p_above :: attr
  p_true_length :: attr
  p_angle_hp :: attr
  p_angle_vp :: attr
  p_shape :: "string option"
  p_size :: attr
  p_sizes :: "real list option"
  p_surface_angle :: attr
  p_edge_angle_to_VP :: attr
  p_solid_type :: "string option"

text \<open>\<^verbatim>\<open>params.get(k, d)\<close> and \<^verbatim>\<open>params.get(k)\<close>; the result \<open>None\<close> is Python's
  \<^verbatim>\<open>None\<close>.\<close>

fun get_default :: "attr \<Rightarrow> real \<Rightarrow> real option" where
  "get_default Missing d = Some d"
| "get_default Null d = None"
| "get_default (Val v) d = Some v"

fun get_none :: "attr \<Rightarrow> real option" where
  "get_none Missing = None"
| "get_none Null = None"
| "get_none (Val v) = Some v"

text \<open>\<^verbatim>\<open>x or d\<close>: \<^verbatim>\<open>None\<close> and \<^verbatim>\<open>0.0\<close> are false.\<close>

fun or_else :: "real option \<Rightarrow> real \<Rightarrow> real" where
  "or_else None d = d"
| "or_else (Some v) d = (if v = 0 then d else v)"

text \<open>\<^verbatim>\<open>float(x)\<close> and \<^verbatim>\<open>math.radians(x)\<close> raise \<^verbatim>\<open>TypeError\<close> on \<^verbatim>\<open>None\<close>.\<close>

fun py_float :: "real option \<Rightarrow> error + real" where
  "py_float None = Inl TypeError"
| "py_float (Some v) = Inr v"

definition quote :: char where
  "quote = CHR 0x27"

text \<open>The centre of a box by integer division, as each routine computes
  \<^verbatim>\<open>center_f\<close> and \<^verbatim>\<open>center_t\<close>.\<close>

definition center_of :: "box \<Rightarrow> point" where
  "center_of box =
     (case box of (left, top', right, bottom) \<Rightarrow>
        (real_of_int ((left + right) div 2), real_of_int ((top' + bottom) div 2)))"

subsection \<open>Points and lines\<close>

text \<open>The locals \<^verbatim>\<open>infront\<close> and \<^verbatim>\<open>above\<close> are \<open>infront_mm\<close> and \<open>above_mm\<close> here.\<close>

definition draw_point :: "canvas \<Rightarrow> params \<Rightarrow> string \<Rightarrow> error + canvas" where
  "draw_point draw params label =
     (case py_float (get_default (p_infront params) 30) of
        Inl e \<Rightarrow> Inl e
      | Inr infront_mm \<Rightarrow>
     (case py_float (get_default (p_above params) 30) of
        Inl e \<Rightarrow> Inl e
      | Inr above_mm \<Rightarrow>
        let max_mm = max (max infront_mm above_mm) 100;
            scale = fit_scale_for_box (max_mm * 2) FRONT_BOX;
            f = transform_to_box_coords 0 above_mm FRONT_BOX scale;
            t = transform_to_box_coords 0 infront_mm TOP_BOX scale;
            fx = fst f; fz = snd f; tx = fst t; ty = snd t
        in Inr (draw @
             [Ellipse (fx - 6) (fz - 6) (fx + 6) (fz + 6) LINE_HP,
              Ellipse (tx - 5) (ty - 5) (tx + 5) (ty + 5) LINE_VP,
              Line [(fx, fz), (tx, ty)] LINE_CONST,
              Text (fx + 10, fz - 10) [Lit (label @ [quote, quote])],
              Text (tx + 10, ty - 10) [Lit (label @ [quote])]])))"

text \<open>\<^verbatim>\<open>math.atan2\<close> is only called on the absolute values of a rise and of a run that
  is not zero, where it is the arc tangent of the quotient.\<close>

definition apparent_angle :: "real \<Rightarrow> real \<Rightarrow> real" where
  "apparent_angle dx dy =
     (if dx = 0 then 90 else degrees (arctan (\<bar>dy\<bar> / \<bar>dx\<bar>)))"

text \<open>The small circle that \<^verbatim>\<open>draw_line\<close> draws around an end point.\<close>

definition marker :: "point \<Rightarrow> real \<Rightarrow> nat \<Rightarrow> prim" where
  "marker p r w = Ellipse (fst p - r) (snd p - r) (fst p + r) (snd p + r) w"

text \<open>\<^verbatim>\<open>draw_line\<close>. The apparent lengths are only printed, and are computed with
  the real cosine like the rest of the geometry. Formatting an apparent length
  that is \<^verbatim>\<open>None\<close> with \<^verbatim>\<open>:.2f\<close> would raise \<^verbatim>\<open>TypeError\<close>.\<close>

definition draw_line :: "canvas \<Rightarrow> params \<Rightarrow> error + canvas" where
  "draw_line draw params =
     (let L = or_else (get_default (p_true_length params) 80) 80;
          alpha = or_else (get_default (p_angle_hp params) 30) 30;
          beta = or_else (get_default (p_angle_vp params) 45) 45;
          top_ap = apparent_length exact_cos_deg (Some L) (Some alpha);
          front_ap = apparent_length exact_cos_deg (Some L) (Some beta);
          plan_angle = 25;
          dz = L * sin (radians alpha);
          plan_len = L * cos (radians alpha);
          dx = plan_len * cos (radians plan_angle);
          dy = plan_len * sin (radians plan_angle);
          Ax = - L * (1 / 10); Ay = 0; Az = 0;
          Bx = Ax + dx; By = Ay + dy; Bz = Az + dz;
          max_mm = max \<bar>Ax\<bar> (max \<bar>Bx\<bar> (max \<bar>Ay\<bar> (max \<bar>By\<bar>
                     (max \<bar>Az\<bar> (max \<bar>Bz\<bar> (max L 150))))));
          scale = fit_scale_for_box (max_mm * (22 / 10)) FRONT_BOX;
          A_front = transform_to_box_coords Ax Az FRONT_BOX scale;
          B_front = transform_to_box_coords Bx Bz FRONT_BOX scale;
          A_top = transform_to_box_coords Ax Ay TOP_BOX scale;
          B_top = transform_to_box_coords Bx By TOP_BOX scale;
          draw1 = draw @
            [Line [A_front, B_front] LINE_HP,
             marker A_front 5 LINE_HP,
             marker B_front 5 LINE_HP,
             Line [A_top, B_top] LINE_VP,
             marker A_top 4 LINE_VP,
             marker B_top 4 LINE_VP,
             Line [A_front, A_top] LINE_CONST,
             Line [B_front, B_top] LINE_CONST,
             Text (fst A_front - 18, snd A_front - 26) [Lit (''A'' @ [quote, quote])],
             Text (fst B_front - 18, snd B_front - 26) [Lit (''B'' @ [quote, quote])],
             Text (fst A_top - 18, snd A_top + 8) [Lit (''A'' @ [quote])],
             Text (fst B_top - 18, snd B_top + 8) [Lit (''B'' @ [quote])]]
      in case (top_ap, front_ap) of
           (Some top_ap', Some front_ap') \<Rightarrow>
             let dx_front = fst B_front - fst A_front;
                 dy_front = snd A_front - snd B_front;
                 theta_front = apparent_angle dx_front dy_front;
                 dx_top = fst B_top - fst A_top;
                 dy_top = snd A_top - snd B_top;
                 theta_top = apparent_angle dx_top dy_top;
                 info =
                   [[Lit ''True length L = '', Fix 2 L, Lit '' mm''],
                    [Lit ''Apparent (top) = '', Fix 2 top_ap', Lit '' mm (L*cos '',
                     Sym ''alpha'', Lit ''), '', Sym ''alpha'', Lit ''='', Num alpha,
                     Sym ''degree''],
                    [Lit ''Apparent (front) = '', Fix 2 front_ap', Lit '' mm (L*cos '',
                     Sym ''beta'', Lit ''), '', Sym ''beta'', Lit ''='', Num beta,
                     Sym ''degree''],
                    [Lit ''Apparent angle in front view (with X) = '', Fix 1 theta_front,
                     Sym ''degree''],
                    [Lit ''Apparent angle in top view (with X) = '', Fix 1 theta_top,
                     Sym ''degree'']]
             in Inr (draw_info_panel draw1 info)
         | _ \<Rightarrow> Inl TypeError)"

subsection \<open>Laminae\<close>

text \<open>\<^verbatim>\<open>params.get('sizes') and params.get('sizes')[0]\<close>: an absent or empty list is
  false, otherwise the value is the first element.\<close>

fun sizes_head :: "real list option \<Rightarrow> real option" where
  "sizes_head None = None"
| "sizes_head (Some []) = None"
| "sizes_head (Some (x # xs)) = Some x"

text \<open>The rotation by \<^verbatim>\<open>theta\<close> about the origin and the placement about \<^verbatim>\<open>center_t\<close>
  that the branches of \<^verbatim>\<open>draw_lamina\<close> apply to each point of the top view.\<close>

definition rotate_to_top :: "point \<Rightarrow> real \<Rightarrow> real \<Rightarrow> point \<Rightarrow> point" where
  "rotate_to_top center_t theta scale p =
     (let px = fst p; py = snd p;
          rx = px * cos theta - py * sin theta;
          ry = px * sin theta + py * cos theta
      in (fst center_t + rx * scale, snd center_t + ry * scale))"

text \<open>The branch \<^verbatim>\<open>shape == 'triangle'\<close>.\<close>

definition lamina_triangle :: "canvas \<Rightarrow> real \<Rightarrow> real \<Rightarrow> real \<Rightarrow> real \<Rightarrow> canvas" where
  "lamina_triangle draw s scale surface_angle edge_angle =
     (let center_f = center_of FRONT_BOX;
          center_t = center_of TOP_BOX;
          side = s;
          h = sqrt 3 / 2 * side;
          h_f = h * cos (radians surface_angle);
          pts_f = [(fst center_f, snd center_f - h_f / 2),
                   (fst center_f - side / 2 * scale, snd center_f + h_f / 2),
                   (fst center_f + side / 2 * scale, snd center_f + h_f / 2)];
          polygon_pts = regular_polygon_vertices 3 side;
          theta = radians edge_angle;
          pts_t = map (rotate_to_top center_t theta scale) polygon_pts;
          draw1 = draw @
            [Line [pts_f ! 0, pts_f ! 1, pts_f ! 2, pts_f ! 0] LINE_HP,
             Line [pts_t ! 0, pts_t ! 1, pts_t ! 2, pts_t ! 0] LINE_VP]
            @ map (\<lambda>i. Line [pts_f ! i, pts_t ! i] LINE_CONST) [0 ..< 3]
      in draw_info_panel draw1
           [[Lit ''Triangle side='', Num side, Lit '' mm, surface angle='',
             Num surface_angle, Sym ''degree'', Lit '' to HP, edge rotated '',
             Num edge_angle, Sym ''degree'', Lit '' to VP'']])"

text \<open>The branch \<^verbatim>\<open>shape == 'square' or shape == 'rectangle'\<close>. The value \<^verbatim>\<open>sizes\<close> is a
  number (\<^verbatim>\<open>float(sizes)\<close> has already succeeded), so the test for a list of two
  sizes is false and the width and height come from \<^verbatim>\<open>s\<close>.\<close>

definition lamina_rectangle ::
  "canvas \<Rightarrow> string \<Rightarrow> real \<Rightarrow> real \<Rightarrow> real \<Rightarrow> real \<Rightarrow> canvas" where
  "lamina_rectangle draw shape s scale surface_angle edge_angle =
     (let center_f = center_of FRONT_BOX;
          center_t = center_of TOP_BOX;
          w = s;
          h = (if shape = ''rectangle'' then s * (15 / 10) else s);
          h_f = h * cos (radians surface_angle);
          leftf = fst center_f - (w / 2) * scale;
          rightf = fst center_f + (w / 2) * scale;
          topf = snd center_f - (h_f / 2);
          botf = snd center_f + (h_f / 2);
          draw1 = draw @ [Rectangle leftf topf rightf botf LINE_HP];
          theta = radians edge_angle;
          corners = [(- w / 2, - h / 2), (w / 2, - h / 2), (w / 2, h / 2), (- w / 2, h / 2)];
          pts_t = map (rotate_to_top center_t theta scale) corners;
          draw2 = draw1 @
            [Line [pts_t ! 0, pts_t ! 1, pts_t ! 2, pts_t ! 3, pts_t ! 0] LINE_VP];
          front_pts = [(leftf, topf), (rightf, topf), (rightf, botf), (leftf, botf)];
          draw3 = draw2 @
            map (\<lambda>i. Line [front_pts ! i, pts_t ! i] LINE_CONST) [0 ..< 4]
      in draw_info_panel draw3
           [[Lit ''Rectangle '', Num w, Lit '' x '', Num h, Lit '' mm, surface angle='',
             Num surface_angle, Sym ''degree'']])"

text \<open>\<^verbatim>\<open>str.capitalize\<close>, which is only called on these three words.\<close>

definition capitalize :: "string \<Rightarrow> string" where
  "capitalize w =
     (if w = ''hexagon'' then ''Hexagon''
      else if w = ''pentagon'' then ''Pentagon''
      else if w = ''polygon'' then ''Polygon'' else w)"

text \<open>The branch \<^verbatim>\<open>shape in ('pentagon','hexagon','polygon')\<close>.\<close>

definition lamina_polygon ::
  "canvas \<Rightarrow> string \<Rightarrow> real \<Rightarrow> real \<Rightarrow> real \<Rightarrow> real \<Rightarrow> canvas" where
  "lamina_polygon draw shape s scale surface_angle edge_angle =
     (let center_f = center_of FRONT_BOX;
          center_t = center_of TOP_BOX;
          n = (if shape = ''hexagon'' then 6 else if shape = ''pentagon'' then 5 else 6);
          polygon_pts = regular_polygon_vertices n s;
          theta = radians edge_angle;
          pts_f = map (\<lambda>p. (fst center_f + fst p * scale,
                             snd center_f + snd p * cos (radians surface_angle) * scale))
                      polygon_pts;
          pts_t = map (rotate_to_top center_t theta scale) polygon_pts;
          draw1 = draw @
            [Line (pts_f @ [pts_f ! 0]) LINE_HP,
             Line (pts_t @ [pts_t ! 0]) LINE_VP]
            @ map (\<lambda>i. Line [pts_f ! i, pts_t ! i] LINE_CONST) [0 ..< length pts_f]
      in draw_info_panel draw1
           [[Lit (capitalize shape), Lit '' side='', Num s, Lit '' mm, surface angle='',
             Num surface_angle, Sym ''degree'']])"

text \<open>The branch \<^verbatim>\<open>shape == 'circle'\<close>.\<close>

definition lamina_circle :: "canvas \<Rightarrow> real \<Rightarrow> real \<Rightarrow> real \<Rightarrow> canvas" where
  "lamina_circle draw s scale surface_angle =
     (let center_f = center_of FRONT_BOX;
          center_t = center_of TOP_BOX;
          r = s / 2;
          leftf = fst center_f - r * scale;
          rightf = fst center_f + r * scale;
          topf = snd center_f - r * cos (radians surface_angle) * scale;
          botf = snd center_f + r * cos (radians surface_angle) * scale;
          leftt = fst center_t - r * scale;
          rightt = fst center_t + r * scale;
          topt = snd center_t - r * scale;
          bott = snd center_t + r * scale;
          draw1 = draw @
            [Ellipse leftf topf rightf botf LINE_HP,
             Ellipse leftt topt rightt bott LINE_VP,
             Line [center_f, center_t] LINE_CONST]
      in draw_info_panel draw1
           [[Lit ''Circle diameter='', Num s, Lit '' mm, surface angle='',
             Num surface_angle, Sym ''degree'']])"

text \<open>\<^verbatim>\<open>draw_lamina\<close>. The value \<^verbatim>\<open>sizes\<close> of the chain of \<^verbatim>\<open>or\<close> is a number, which
  \<^verbatim>\<open>float\<close> returns. An angle that is present as \<^verbatim>\<open>None\<close> makes \<^verbatim>\<open>math.radians\<close> raise
  in the branch that uses it, before anything is drawn.\<close>

definition draw_lamina :: "canvas \<Rightarrow> params \<Rightarrow> error + canvas" where
  "draw_lamina draw params =
     (let shape = (case p_shape params of None \<Rightarrow> ''triangle'' | Some v \<Rightarrow> v);
          sizes = or_else (get_none (p_size params))
                    (or_else (sizes_head (p_sizes params)) 30);
          surface_angle = get_default (p_surface_angle params) 60;
          edge_angle = get_default (p_edge_angle_to_VP params) 45;
          s = sizes;
          max_mm = max s 100;
          scale = fit_scale_for_box (max_mm * (22 / 10)) FRONT_BOX
      in if shape = ''triangle'' then
           (case (surface_angle, edge_angle) of
              (Some sa, Some ea) \<Rightarrow> Inr (lamina_triangle draw s scale sa ea)
            | _ \<Rightarrow> Inl TypeError)
         else if shape = ''square'' \<or> shape = ''rectangle'' then
           (case (surface_angle, edge_angle) of
              (Some sa, Some ea) \<Rightarrow> Inr (lamina_rectangle draw shape s scale sa ea)
            | _ \<Rightarrow> Inl TypeError)
         else if shape = ''pentagon'' \<or> shape = ''hexagon'' \<or> shape = ''polygon'' then
           (case (surface_angle, edge_angle) of
              (Some sa, Some ea) \<Rightarrow> Inr (lamina_polygon draw shape s scale sa ea)
            | _ \<Rightarrow> Inl TypeError)
         else if shape = ''circle'' then
           (case surface_angle of
              Some sa \<Rightarrow> Inr (lamina_circle draw s scale sa)
            | None \<Rightarrow> Inl TypeError)
         else Inr (draw_info_panel draw [[Lit ''Shape not recognized for lamina.'']]))"

subsection \<open>Solids\<close>

definition solid_cube :: "canvas \<Rightarrow> real list \<Rightarrow> canvas" where
  "solid_cube draw sizes =
     (let a = (if sizes \<noteq> [] then sizes ! 0 else 50);
          draw1 = draw_info_panel draw [[Lit ''Cube side '', Num a, Lit '' mm'']];
          scale = fit_scale_for_box (a * 3) FRONT_BOX;
          center_f = center_of FRONT_BOX;
          center_t = center_of TOP_BOX;
          l = a * scale / 2
      in draw1 @
           [Rectangle (fst center_f - l) (snd center_f - l)
                      (fst center_f + l) (snd center_f + l) LINE_HP,
            Rectangle (fst center_t - l) (snd center_t - l)
                      (fst center_t + l) (snd center_t + l) LINE_VP])"

definition solid_cuboid :: "canvas \<Rightarrow> real list \<Rightarrow> canvas" where
  "solid_cuboid draw sizes =
     (let (w, d, h) = (if 3 \<le> length sizes then (sizes ! 0, sizes ! 1, sizes ! 2)
                       else (80, 50, 60));
          draw1 = draw_info_panel draw
            [[Lit ''Cuboid '', Num w, Lit '' x '', Num d, Lit '' base, height '', Num h,
              Lit '' mm'']];
          scale = fit_scale_for_box (max (max w d) h * 3) FRONT_BOX;
          center_f = center_of FRONT_BOX;
          center_t = center_of TOP_BOX;
          lw = w * scale / 2; lh = h * scale / 2; ld = d * scale / 2
      in draw1 @
           [Rectangle (fst center_f - lw) (snd center_f - lh)
                      (fst center_f + lw) (snd center_f + lh) LINE_HP,
            Rectangle (fst center_t - lw) (snd center_t - ld)
                      (fst center_t + lw) (snd center_t + ld) LINE_VP])"

definition solid_cylinder :: "canvas \<Rightarrow> real list \<Rightarrow> canvas" where
  "solid_cylinder draw sizes =
     (let (diam, h) = (if 2 \<le> length sizes then (sizes ! 0, sizes ! 1) else (50, 80));
          draw1 = draw_info_panel draw
            [[Lit ''Cylinder D='', Num diam, Lit '' mm, height='', Num h, Lit '' mm'']];
          scale = fit_scale_for_box (max diam h * (25 / 10)) FRONT_BOX;
          center_f = center_of FRONT_BOX;
          center_t = center_of TOP_BOX;
          r = diam / 2 * scale
      in draw1 @
           [Ellipse (fst center_f - r) (snd center_f - h * scale / 2 - r / 3)
                    (fst center_f + r) (snd center_f - h * scale / 2 + r / 3) LINE_HP,
            Rectangle (fst center_f - r) (snd center_f - h * scale / 2 + r / 3)
                      (fst center_f + r) (snd center_f + h * scale / 2 - r / 3) LINE_HP,
            Ellipse (fst center_f - r) (snd center_f + h * scale / 2 - r / 3)
                    (fst center_f + r) (snd center_f + h * scale / 2 + r / 3) LINE_HP,
            Ellipse (fst center_t - r) (snd center_t - r)
                    (fst center_t + r) (snd center_t + r) LINE_VP])"

definition solid_cone :: "canvas \<Rightarrow> real list \<Rightarrow> canvas" where
  "solid_cone draw sizes =
     (let (diam, h) = (if 2 \<le> length sizes then (sizes ! 0, sizes ! 1) else (50, 80));
          draw1 = draw_info_panel draw
            [[Lit ''Cone D='', Num diam, Lit '' mm, height='', Num h, Lit '' mm'']];
          scale = fit_scale_for_box (max diam h * 3) FRONT_BOX;
          center_f = center_of FRONT_BOX;
          center_t = center_of TOP_BOX;
          r = diam / 2 * scale
      in draw1 @
           [Polygon [(fst center_f - r, snd center_f + h * scale / 2),
                     (fst center_f + r, snd center_f + h * scale / 2),
                     (fst center_f, snd center_f - h * scale / 2)],
            Ellipse (fst center_t - r) (snd center_t - r)
                    (fst center_t + r) (snd center_t + r) LINE_VP])"

definition solid_pyramid :: "canvas \<Rightarrow> real list \<Rightarrow> canvas" where
  "solid_pyramid draw sizes =
     (let (base, height) = (if 2 \<le> length sizes then (sizes ! 0, sizes ! 1) else (60, 80));
          draw1 = draw_info_panel draw
            [[Lit ''Pyramid base='', Num base, Lit '' mm, height='', Num height,
              Lit '' mm'']];
          scale = fit_scale_for_box (base * 3) FRONT_BOX;
          center_f = center_of FRONT_BOX;
          center_t = center_of TOP_BOX;
          b = base * scale / 2
      in draw1 @
           [Line [(fst center_t - b, snd center_t - b), (fst center_t + b, snd center_t - b),
                  (fst center_t + b, snd center_t + b), (fst center_t - b, snd center_t + b),
                  (fst center_t - b, snd center_t - b)] LINE_VP,
            Polygon [(fst center_f - b, snd center_f + b), (fst center_f + b, snd center_f + b),
                     (fst center_f, snd center_f - height * scale)]])"

text \<open>The loop that draws the lateral development: one rectangle for each \<open>i\<close> of
  \<^verbatim>\<open>range(n)\<close>.\<close>

definition development :: "real \<Rightarrow> real \<Rightarrow> real \<Rightarrow> real \<Rightarrow> int \<Rightarrow> prim list" where
  "development dev_x dev_y face_w face_h n =
     map (\<lambda>i. let x0 = dev_x + real i * (face_w + 6);
                   y0 = dev_y
               in Rectangle x0 y0 (x0 + face_w) (y0 + face_h) LINE_HP)
         [0 ..< nat n]"

definition solid_prism :: "canvas \<Rightarrow> real list \<Rightarrow> canvas" where
  "solid_prism draw sizes =
     (let (n, side, height) =
            (if 3 \<le> length sizes then (py_int (sizes ! 0), sizes ! 1, sizes ! 2)
             else if length sizes = 2 then (4, sizes ! 0, sizes ! 1)
             else if length sizes = 1 then (4, sizes ! 0, sizes ! 0 * (12 / 10))
             else (4, 50, 80));
          draw1 = draw_info_panel draw
            [[Lit ''Regular prism n='', IntNum n, Lit '', side='', Num side,
              Lit '' mm, height='', Num height, Lit '' mm''],
             [Lit ''Lateral development shown below'']];
          scale = fit_scale_for_box (max (side * 2) height * 3) FRONT_BOX;
          center_f = center_of FRONT_BOX;
          center_t = center_of TOP_BOX;
          poly = regular_polygon_vertices (real_of_int n) side;
          pts_t = map (\<lambda>p. (fst center_t + fst p * scale, snd center_t + snd p * scale)) poly;
          draw2 = draw1 @ [Line (pts_t @ [pts_t ! 0]) LINE_VP];
          xs = map fst poly;
          ys = map snd poly;
          width_mm = Max (set xs) - Min (set xs);
          w_px = width_mm * scale;
          h_px = height * scale;
          leftf = fst center_f - w_px / 2;
          rightf = fst center_f + w_px / 2;
          topf = snd center_f - h_px / 2;
          botf = snd center_f + h_px / 2;
          draw3 = draw2 @ [Rectangle leftf topf rightf botf LINE_HP];
          dev_x = real_of_int (fst INFO_BOX + 20);
          dev_y = real_of_int (fst (snd FRONT_BOX));
          face_w = side * scale;
          face_h = height * scale
      in draw3 @ development dev_x dev_y face_w face_h n)"

text \<open>\<^verbatim>\<open>draw_prism\<close>: the dispatch on \<^verbatim>\<open>solid_type\<close>.\<close>

definition draw_prism :: "canvas \<Rightarrow> params \<Rightarrow> canvas" where
  "draw_prism draw params =
     (let typ = (case p_solid_type params of None \<Rightarrow> ''prism'' | Some v \<Rightarrow> v);
          sizes = (case p_sizes params of None \<Rightarrow> [] | Some v \<Rightarrow> v)
      in if typ = ''cube'' then solid_cube draw sizes
         else if typ = ''cuboid'' then solid_cuboid draw sizes
         else if typ = ''cylinder'' then solid_cylinder draw sizes
         else if typ = ''cone'' then solid_cone draw sizes
         else if typ = ''pyramid'' then solid_pyramid draw sizes
         else if typ = ''prism'' then solid_prism draw sizes
         else draw_info_panel draw [[Lit ''Solid type not yet implemented.'']])"

text \<open>The request with no key set.\<close>

definition no_params :: params where
  "no_params = \<lparr>p_infront = Missing, p_above = Missing, p_true_length = Missing,
     p_angle_hp = Missing, p_angle_vp = Missing, p_shape = None, p_size = Missing,
     p_sizes = None, p_surface_angle = Missing, p_edge_angle_to_VP = Missing,
     p_solid_type = None\<rparr>"

text \<open>The request \<^verbatim>\<open>Solid{type=prism, sizes=[5,30,80]}\<close>.\<close>

definition prism_req :: params where
  "prism_req = no_params\<lparr>p_solid_type := Some ''prism'', p_sizes := Some [5, 30, 80]\<rparr>"

subsection \<open>Reading a canvas\<close>

text \<open>
  The construction segments of a canvas are the point lists of its lines of width
  \<open>LINE_CONST\<close>. The outline vertices of a view are the vertices of the polylines and
  rectangles drawn with the width of that view (\<open>LINE_HP\<close> for the front view,
  \<open>LINE_VP\<close> for the top view): a closed polyline repeats its first point at its end,
  and a rectangle has its four corners, clockwise from the top left one. The
  projectors of a canvas are paired when its construction segments are exactly
  the segments from the i-th front vertex to the i-th top vertex.
\<close>

fun construction_segments :: "canvas \<Rightarrow> point list list" where
  "construction_segments [] = []"
| "construction_segments (Line pts w # c) =
     (if w = LINE_CONST then pts # construction_segments c else construction_segments c)"
| "construction_segments (_ # c) = construction_segments c"

fun outline_vertices :: "nat \<Rightarrow> prim \<Rightarrow> point list" where
  "outline_vertices wt (Line pts w) =
     (if w = wt then (if 2 < length pts \<and> last pts = hd pts then butlast pts else pts)
      else [])"
| "outline_vertices wt (Rectangle l t r b w) =
     (if w = wt then [(l, t), (r, t), (r, b), (l, b)] else [])"
| "outline_vertices wt _ = []"

definition view_vertices :: "nat \<Rightarrow> canvas \<Rightarrow> point list" where
  "view_vertices wt c = concat (map (outline_vertices wt) c)"

definition projectors_paired :: "canvas \<Rightarrow> bool" where
  "projectors_paired c \<longleftrightarrow>
     length (view_vertices LINE_HP c) = length (view_vertices LINE_VP c) \<and>
     construction_segments c
       = map2 (\<lambda>f t. [f, t]) (view_vertices LINE_HP c) (view_vertices LINE_VP c)"

section \<open>Properties\<close>

subsection \<open>The layout constants, evaluated\<close>

lemma FRONT_BOX_eq: "FRONT_BOX = (36, 36, 664, 430)"
  by (simp add: FRONT_BOX_def MARGIN_def CANVAS_W_def XY_Y_def CANVAS_H_def)

lemma TOP_BOX_eq: "TOP_BOX = (36, 470, 664, 864)"
  by (simp add: TOP_BOX_def MARGIN_def CANVAS_W_def XY_Y_def CANVAS_H_def)

lemma INFO_BOX_eq: "INFO_BOX = (710, 36, 1364, 864)"
  by (simp add: INFO_BOX_def MARGIN_def CANVAS_W_def XY_Y_def CANVAS_H_def)

lemma center_of_FRONT_BOX: "center_of FRONT_BOX = (350, 233)"
  by (simp add: center_of_def FRONT_BOX_eq)

lemma center_of_TOP_BOX: "center_of TOP_BOX = (350, 667)"
  by (simp add: center_of_def TOP_BOX_eq)

lemma draw_info_panel_one:
  "draw_info_panel draw [l] = draw @ [Rectangle 710 36 1364 864 1, Text (718, 44) l]"
  by (simp add: draw_info_panel_def INFO_BOX_eq)

lemma fit_scale_front:
  "0 < m \<Longrightarrow> fit_scale_for_box m (36, 36, 664, 430) = 374 / m"
  by (simp add: fit_scale_for_box_def Let_def min_def divide_le_cancel)

lemma fit_scale_FRONT_BOX:
  "0 < m \<Longrightarrow> fit_scale_for_box m FRONT_BOX = 374 / m"
  by (simp add: FRONT_BOX_eq fit_scale_front)

subsection \<open>Unrecognized shapes and solid types\<close>

text \<open>
  C5: a lamina request whose shape is not one of the recognized ones, and a solid
  request whose \<^verbatim>\<open>solid_type\<close> is not one of the recognized ones, raise nothing and
  draw no geometry: the canvas only gains the frame of the information panel and
  the one line of the diagnostic message.
\<close>

theorem unrecognized_is_diagnostic_only:
  "(p_shape params = Some sh \<and>
      sh \<notin> set [''triangle'', ''square'', ''rectangle'', ''pentagon'', ''hexagon'',
                  ''polygon'', ''circle''] \<longrightarrow>
      draw_lamina draw params
        = Inr (draw @ [Rectangle 710 36 1364 864 1,
                       Text (718, 44) [Lit ''Shape not recognized for lamina.'']])) \<and>
   (p_solid_type params = Some ty \<and>
      ty \<notin> set [''cube'', ''cuboid'', ''cylinder'', ''cone'', ''pyramid'', ''prism''] \<longrightarrow>
      draw_prism draw params
        = draw @ [Rectangle 710 36 1364 864 1,
                  Text (718, 44) [Lit ''Solid type not yet implemented.'']])"
  by (simp add: draw_lamina_def draw_prism_def draw_info_panel_one Let_def)

theorem unrecognized_is_diagnostic_only_witness:
  "draw_lamina [] (no_params\<lparr>p_shape := Some ''rhombus''\<rparr>)
     = Inr [Rectangle 710 36 1364 864 1,
            Text (718, 44) [Lit ''Shape not recognized for lamina.'']] \<and>
   draw_prism [] (no_params\<lparr>p_solid_type := Some ''solid''\<rparr>)
     = [Rectangle 710 36 1364 864 1,
        Text (718, 44) [Lit ''Solid type not yet implemented.'']]"
  using unrecognized_is_diagnostic_only
          [of "no_params\<lparr>p_shape := Some ''rhombus''\<rparr>" "''rhombus''" "[]"]
        unrecognized_is_diagnostic_only
          [of "no_params\<lparr>p_solid_type := Some ''solid''\<rparr>" _ "[]" "''solid''"]
  by simp

subsection \<open>Zero, \<^verbatim>\<open>None\<close> and absent attributes\<close>

lemma draw_line_cong:
  assumes "or_else (get_default (p_true_length p) 80) 80 = or_else (get_default (p_true_length q) 80) 80"
    and "or_else (get_default (p_angle_hp p) 30) 30 = or_else (get_default (p_angle_hp q) 30) 30"
    and "or_else (get_default (p_angle_vp p) 45) 45 = or_else (get_default (p_angle_vp q) 45) 45"
  shows "draw_line d p = draw_line d q"
  unfolding draw_line_def assms ..

lemma draw_lamina_cong:
  assumes "or_else (get_none (p_size p)) (or_else (sizes_head (p_sizes p)) 30)
           = or_else (get_none (p_size q)) (or_else (sizes_head (p_sizes q)) 30)"
    and "p_shape p = p_shape q"
    and "p_surface_angle p = p_surface_angle q"
    and "p_edge_angle_to_VP p = p_edge_angle_to_VP q"
  shows "draw_lamina d p = draw_lamina d q"
  unfolding draw_lamina_def assms ..

lemma last_lamina_triangle:
  "last (lamina_triangle d s sc sa ea)
     = Text (718, 44)
         [Lit ''Triangle side='', Num s, Lit '' mm, surface angle='',
          Num sa, Sym ''degree'', Lit '' to HP, edge rotated '',
          Num ea, Sym ''degree'', Lit '' to VP'']"
  unfolding lamina_triangle_def Let_def draw_info_panel_one by simp

text \<open>
  C10, as stated: for every lamina request a size of 0 is replaced by 30 mm. With
  the size 0 and the list \<^verbatim>\<open>sizes = [50]\<close> the triangle is drawn with side 50, not as
  the request with size 30 is drawn.
\<close>

theorem zero_size_not_always_30:
  "draw_lamina [] (no_params\<lparr>p_size := Val 0, p_sizes := Some [50]\<rparr>)
     \<noteq> draw_lamina [] (no_params\<lparr>p_size := Val 30, p_sizes := Some [50]\<rparr>)"
proof
  assume "draw_lamina [] (no_params\<lparr>p_size := Val 0, p_sizes := Some [50]\<rparr>)
     = draw_lamina [] (no_params\<lparr>p_size := Val 30, p_sizes := Some [50]\<rparr>)"
  then have "lamina_triangle [] 50 (17 / 10) 60 45 = lamina_triangle [] 30 (17 / 10) 60 45"
    by (simp add: draw_lamina_def no_params_def fit_scale_FRONT_BOX)
  then have "last (lamina_triangle [] 50 (17 / 10) 60 45)
             = last (lamina_triangle [] 30 (17 / 10) 60 45)"
    by (rule arg_cong)
  then show False
    by (simp add: last_lamina_triangle)
qed

text \<open>
  C10, amended: for every line request, a true length, an angle to HP or an angle
  to VP that is 0 or \<^verbatim>\<open>None\<close> is drawn as if the attribute were absent, that is with
  the default 80 mm, 30 degrees and 45 degrees; for every lamina request a size
  that is 0 or \<^verbatim>\<open>None\<close> is drawn as if it were absent, which is with the first entry
  of \<^verbatim>\<open>sizes\<close> when there is one and it is not 0, and with the default 30 mm when
  \<^verbatim>\<open>sizes\<close> is absent, is empty, or has the first entry 0.
\<close>

theorem zero_is_absent:
  "draw_line d (p\<lparr>p_true_length := Val 0\<rparr>) = draw_line d (p\<lparr>p_true_length := Missing\<rparr>) \<and>
   draw_line d (p\<lparr>p_true_length := Null\<rparr>) = draw_line d (p\<lparr>p_true_length := Missing\<rparr>) \<and>
   draw_line d (p\<lparr>p_true_length := Val 0\<rparr>) = draw_line d (p\<lparr>p_true_length := Val 80\<rparr>) \<and>
   draw_line d (p\<lparr>p_true_length := Null\<rparr>) = draw_line d (p\<lparr>p_true_length := Val 80\<rparr>) \<and>
   draw_line d (p\<lparr>p_angle_hp := Val 0\<rparr>) = draw_line d (p\<lparr>p_angle_hp := Missing\<rparr>) \<and>
   draw_line d (p\<lparr>p_angle_hp := Null\<rparr>) = draw_line d (p\<lparr>p_angle_hp := Missing\<rparr>) \<and>
   draw_line d (p\<lparr>p_angle_hp := Val 0\<rparr>) = draw_line d (p\<lparr>p_angle_hp := Val 30\<rparr>) \<and>
   draw_line d (p\<lparr>p_angle_hp := Null\<rparr>) = draw_line d (p\<lparr>p_angle_hp := Val 30\<rparr>) \<and>
   draw_line d (p\<lparr>p_angle_vp := Val 0\<rparr>) = draw_line d (p\<lparr>p_angle_vp := Missing\<rparr>) \<and>
   draw_line d (p\<lparr>p_angle_vp := Null\<rparr>) = draw_line d (p\<lparr>p_angle_vp := Missing\<rparr>) \<and>
   draw_line d (p\<lparr>p_angle_vp := Val 0\<rparr>) = draw_line d (p\<lparr>p_angle_vp := Val 45\<rparr>) \<and>
   draw_line d (p\<lparr>p_angle_vp := Null\<rparr>) = draw_line d (p\<lparr>p_angle_vp := Val 45\<rparr>) \<and>
   draw_lamina d (p\<lparr>p_size := Val 0\<rparr>) = draw_lamina d (p\<lparr>p_size := Missing\<rparr>) \<and>
   draw_lamina d (p\<lparr>p_size := Null\<rparr>) = draw_lamina d (p\<lparr>p_size := Missing\<rparr>) \<and>
   draw_lamina d (p\<lparr>p_size := Val 0, p_sizes := Some (x # xs)\<rparr>)
     = draw_lamina d (p\<lparr>p_size := Val (if x = 0 then 30 else x), p_sizes := Some (x # xs)\<rparr>) \<and>
   draw_lamina d (p\<lparr>p_size := Null, p_sizes := Some (x # xs)\<rparr>)
     = draw_lamina d (p\<lparr>p_size := Val (if x = 0 then 30 else x), p_sizes := Some (x # xs)\<rparr>) \<and>
   draw_lamina d (p\<lparr>p_size := Val 0, p_sizes := Some (0 # xs)\<rparr>)
     = draw_lamina d (p\<lparr>p_size := Val 30, p_sizes := Some (0 # xs)\<rparr>) \<and>
   draw_lamina d (p\<lparr>p_size := Null, p_sizes := Some (0 # xs)\<rparr>)
     = draw_lamina d (p\<lparr>p_size := Val 30, p_sizes := Some (0 # xs)\<rparr>) \<and>
   draw_lamina d (p\<lparr>p_size := Val 0, p_sizes := Some []\<rparr>)
     = draw_lamina d (p\<lparr>p_size := Val 30, p_sizes := Some []\<rparr>) \<and>
   draw_lamina d (p\<lparr>p_size := Null, p_sizes := Some []\<rparr>)
     = draw_lamina d (p\<lparr>p_size := Val 30, p_sizes := Some []\<rparr>) \<and>
   draw_lamina d (p\<lparr>p_size := Val 0, p_sizes := None\<rparr>)
     = draw_lamina d (p\<lparr>p_size := Val 30, p_sizes := None\<rparr>) \<and>
   draw_lamina d (p\<lparr>p_size := Null, p_sizes := None\<rparr>)
     = draw_lamina d (p\<lparr>p_size := Val 30, p_sizes := None\<rparr>)"
  by (intro conjI draw_line_cong draw_lamina_cong) simp_all

subsection \<open>No validation of a line's length\<close>

lemma draw_info_panel_append:
  "draw_info_panel (d @ xs) ls = d @ draw_info_panel xs ls"
  by (simp add: draw_info_panel_def INFO_BOX_eq)

lemma length_info_lines: "length (info_lines x y ls) = length ls"
  by (induction ls arbitrary: y) simp_all

lemma length_draw_info_panel:
  "length (draw_info_panel d ls) = length d + 1 + length ls"
  by (simp add: draw_info_panel_def INFO_BOX_eq length_info_lines)

lemma draw_line_total:
  "\<exists>c. draw_line d p = Inr (d @ c) \<and> length c = 18"
  unfolding draw_line_def apparent_length_def Let_def
  apply (simp only: prod.case option.case draw_info_panel_append)
  apply (rule exI, rule conjI, rule refl)
  apply (simp only: length_draw_info_panel list.size)
  done

text \<open>
  C4, as stated: an out-of-domain value such as a negative true length of a line
  makes the builder fail with a \<^verbatim>\<open>ValidationError\<close> and nothing is rendered. The
  request with true length \<open>-80\<close> raises nothing and draws.
\<close>

theorem draw_line_negative_length_drawn:
  "\<not> isl (draw_line [] (no_params\<lparr>p_true_length := Val (- 80)\<rparr>)) \<and>
   projr (draw_line [] (no_params\<lparr>p_true_length := Val (- 80)\<rparr>)) \<noteq> []"
  using draw_line_total [of "[]" "no_params\<lparr>p_true_length := Val (- 80)\<rparr>"] by auto

text \<open>
  C4, amended: \<^verbatim>\<open>draw_line\<close> validates nothing: for every request, whatever the true
  length and the angles, it raises no error and adds its full set of 18 drawing
  primitives to the canvas.
\<close>

theorem draw_line_never_rejects:
  "\<not> isl (draw_line d p) \<and> length (projr (draw_line d p)) = length d + 18"
  using draw_line_total [of d p] by auto

subsection \<open>The sign of the top view\<close>

text \<open>
  C6: a larger \<^verbatim>\<open>infront\<close> should place the top-view marker of a point farther below
  the reference line (which is at pixel row 450, rows growing downwards). The code
  at the requests \<^verbatim>\<open>infront=20\<close> and \<^verbatim>\<open>infront=40\<close> (both \<^verbatim>\<open>above=30\<close>): the marker and the
  lower end of the projector are at row 629.6 for 20 and at row 592.2 for 40, which
  is nearer to the reference line.
\<close>

theorem top_marker_moves_towards_xy:
  "draw_point [] (no_params\<lparr>p_infront := Val 20, p_above := Val 30\<rparr>) ''A''
     = Inr [Ellipse 344 (1709 / 10) 356 (1829 / 10) LINE_HP,
            Ellipse 345 (6246 / 10) 355 (6346 / 10) LINE_VP,
            Line [(350, 1769 / 10), (350, 6296 / 10)] LINE_CONST,
            Text (360, 1669 / 10) [Lit (''A'' @ [quote, quote])],
            Text (360, 6196 / 10) [Lit (''A'' @ [quote])]] \<and>
   draw_point [] (no_params\<lparr>p_infront := Val 40, p_above := Val 30\<rparr>) ''A''
     = Inr [Ellipse 344 (1709 / 10) 356 (1829 / 10) LINE_HP,
            Ellipse 345 (5872 / 10) 355 (5972 / 10) LINE_VP,
            Line [(350, 1769 / 10), (350, 5922 / 10)] LINE_CONST,
            Text (360, 1669 / 10) [Lit (''A'' @ [quote, quote])],
            Text (360, 5822 / 10) [Lit (''A'' @ [quote])]] \<and>
   real_of_int XY_Y < 5922 / 10 \<and> (5922 / 10 :: real) < 6296 / 10"
  by (simp add: draw_point_def no_params_def fit_scale_front
      transform_to_box_coords_def FRONT_BOX_eq TOP_BOX_eq Let_def XY_Y_def CANVAS_H_def)

subsection \<open>The front view of a triangular lamina\<close>

lemma draw_info_panel_Cons:
  "draw_info_panel (x # xs) ls = x # draw_info_panel xs ls"
  by (simp add: draw_info_panel_def INFO_BOX_eq)

lemma cos_radians_60: "cos (radians 60) = 1 / 2"
  unfolding radians_def by (simp add: cos_60)

lemma lamina_triangle_hd:
  "hd (lamina_triangle [] 30 (17 / 10) 60 ea)
     = Line [(350, 233 - 15 * sqrt 3 / 4), (649 / 2, 233 + 15 * sqrt 3 / 4),
             (751 / 2, 233 + 15 * sqrt 3 / 4), (350, 233 - 15 * sqrt 3 / 4)] LINE_HP"
  unfolding lamina_triangle_def Let_def
  by (simp add: draw_info_panel_Cons center_of_FRONT_BOX cos_radians_60)

text \<open>
  C3: for the triangle of side 30 at a surface angle of 60 degrees the front view
  should have the pixel height (30 * sqrt 3 / 2) * cos 60 times the shared scale,
  which is 17/10 here. The code draws the front outline with the horizontal extent
  30 * 17/10 = 51 pixels, but with the vertical extent (30 * sqrt 3 / 2) * cos 60
  pixels, not multiplied by the scale.
\<close>

theorem triangle_front_height_unscaled:
  "hd (projr (draw_lamina []
         (no_params\<lparr>p_shape := Some ''triangle'', p_size := Val 30,
                     p_surface_angle := Val 60\<rparr>)))
     = Line [(350, 233 - 15 * sqrt 3 / 4), (649 / 2, 233 + 15 * sqrt 3 / 4),
             (751 / 2, 233 + 15 * sqrt 3 / 4), (350, 233 - 15 * sqrt 3 / 4)] LINE_HP \<and>
   fit_scale_for_box (max 30 100 * (22 / 10)) FRONT_BOX = 17 / 10 \<and>
   (233 + 15 * sqrt 3 / 4) - (233 - 15 * sqrt 3 / 4)
     \<noteq> 30 * sqrt 3 / 2 * cos (radians 60) * (17 / 10)"
proof -
  have "draw_lamina []
         (no_params\<lparr>p_shape := Some ''triangle'', p_size := Val 30,
                     p_surface_angle := Val 60\<rparr>)
        = Inr (lamina_triangle [] 30 (17 / 10) 60 45)"
    unfolding draw_lamina_def by (simp add: no_params_def fit_scale_FRONT_BOX)
  then show ?thesis
    by (simp add: lamina_triangle_hd fit_scale_FRONT_BOX cos_radians_60)
qed

subsection \<open>Projectors between the two views\<close>

lemma construction_segments_append:
  "construction_segments (xs @ ys) = construction_segments xs @ construction_segments ys"
  by (induction xs rule: construction_segments.induct) simp_all

lemma view_vertices_append:
  "view_vertices w (xs @ ys) = view_vertices w xs @ view_vertices w ys"
  by (simp add: view_vertices_def)

lemma view_vertices_Cons:
  "view_vertices w (x # xs) = outline_vertices w x @ view_vertices w xs"
  by (simp add: view_vertices_def)

lemma view_vertices_Nil: "view_vertices w [] = []"
  by (simp add: view_vertices_def)

lemma construction_segments_info_lines:
  "construction_segments (info_lines x y ls) = []"
  by (induction ls arbitrary: y) simp_all

lemma view_vertices_info_lines:
  "view_vertices w (info_lines x y ls) = []"
  by (induction ls arbitrary: y) (simp_all add: view_vertices_def)

lemma construction_segments_info_panel:
  "construction_segments (draw_info_panel d ls) = construction_segments d"
  by (simp add: draw_info_panel_def INFO_BOX_eq construction_segments_append
      construction_segments_info_lines)

lemma view_vertices_info_panel:
  "w \<noteq> 1 \<Longrightarrow> view_vertices w (draw_info_panel d ls) = view_vertices w d"
  by (simp add: draw_info_panel_def INFO_BOX_eq view_vertices_append view_vertices_Cons
      view_vertices_Nil view_vertices_info_lines)

lemma projectors_paired_info_panel:
  "projectors_paired (draw_info_panel d ls) = projectors_paired d"
  by (simp add: projectors_paired_def construction_segments_info_panel
      view_vertices_info_panel LINE_HP_def LINE_VP_def)

lemma draw_line_shape:
  "\<exists>Af Bf At Bt t1 t2 t3 t4 info. draw_line [] p = Inr (draw_info_panel
     [Line [Af, Bf] LINE_HP, marker Af 5 LINE_HP, marker Bf 5 LINE_HP,
      Line [At, Bt] LINE_VP, marker At 4 LINE_VP, marker Bt 4 LINE_VP,
      Line [Af, At] LINE_CONST, Line [Bf, Bt] LINE_CONST,
      Text t1 [Lit (''A'' @ [quote, quote])], Text t2 [Lit (''B'' @ [quote, quote])],
      Text t3 [Lit (''A'' @ [quote])], Text t4 [Lit (''B'' @ [quote])]] info)"
  unfolding draw_line_def apparent_length_def Let_def
  apply (simp only: prod.case option.case append_Nil)
  apply (intro exI)
  apply (rule refl)
  done

lemma draw_line_paired:
  "projectors_paired (projr (draw_line [] p))"
proof -
  obtain Af Bf At Bt t1 t2 t3 t4 info where "draw_line [] p = Inr (draw_info_panel
     [Line [Af, Bf] LINE_HP, marker Af 5 LINE_HP, marker Bf 5 LINE_HP,
      Line [At, Bt] LINE_VP, marker At 4 LINE_VP, marker Bt 4 LINE_VP,
      Line [Af, At] LINE_CONST, Line [Bf, Bt] LINE_CONST,
      Text t1 [Lit (''A'' @ [quote, quote])], Text t2 [Lit (''B'' @ [quote, quote])],
      Text t3 [Lit (''A'' @ [quote])], Text t4 [Lit (''B'' @ [quote])]] info)"
    using draw_line_shape by blast
  then show ?thesis
    by (simp add: projectors_paired_info_panel)
       (simp add: projectors_paired_def view_vertices_def marker_def
          LINE_HP_def LINE_VP_def LINE_CONST_def)
qed


lemma construction_segments_projectors:
  "length fs = length ts \<Longrightarrow>
   construction_segments (map (\<lambda>i. Line [fs ! i, ts ! i] LINE_CONST) [0 ..< length fs])
     = map2 (\<lambda>f t. [f, t]) fs ts"
proof (induction fs ts rule: list_induct2)
  case Nil
  then show ?case by simp
next
  case (Cons f fs t ts)
  have "map (\<lambda>i. Line [(f # fs) ! i, (t # ts) ! i] LINE_CONST) [0 ..< length (f # fs)]
        = Line [f, t] LINE_CONST # map (\<lambda>i. Line [fs ! i, ts ! i] LINE_CONST) [0 ..< length fs]"
    by (simp add: upt_conv_Cons map_Suc_upt [symmetric] del: upt_Suc)
  then show ?case using Cons by simp
qed

lemma view_vertices_projectors:
  "w \<noteq> LINE_CONST \<Longrightarrow>
   view_vertices w (map (\<lambda>i. Line [fs ! i, ts ! i] LINE_CONST) ns) = []"
  by (induction ns) (simp_all add: view_vertices_def)

lemma closed_outline:
  "2 \<le> length ps \<Longrightarrow> outline_vertices w (Line (ps @ [ps ! 0]) w) = ps"
  by (cases ps) auto

lemma paired_polylines:
  assumes "length fs = length ts" "2 \<le> length fs"
  shows "projectors_paired
           ([Line (fs @ [fs ! 0]) LINE_HP, Line (ts @ [ts ! 0]) LINE_VP]
            @ map (\<lambda>i. Line [fs ! i, ts ! i] LINE_CONST) [0 ..< length fs])"
proof -
  have t: "2 \<le> length ts" using assms by simp
  have hp: "outline_vertices LINE_HP (Line (ts @ [ts ! 0]) LINE_VP) = []"
    and vp: "outline_vertices LINE_VP (Line (fs @ [fs ! 0]) LINE_HP) = []"
    by (simp_all add: LINE_HP_def LINE_VP_def)
  have ne: "LINE_HP \<noteq> LINE_CONST" "LINE_VP \<noteq> LINE_CONST"
    by (simp_all add: LINE_HP_def LINE_VP_def LINE_CONST_def)
  have cs: "construction_segments [Line (fs @ [fs ! 0]) LINE_HP, Line (ts @ [ts ! 0]) LINE_VP] = []"
    by (simp add: LINE_HP_def LINE_VP_def LINE_CONST_def)
  show ?thesis
    unfolding projectors_paired_def construction_segments_append view_vertices_append
      view_vertices_Cons view_vertices_Nil view_vertices_projectors [OF ne(1)]
      view_vertices_projectors [OF ne(2)] closed_outline [OF assms(2)] closed_outline [OF t]
      hp vp cs construction_segments_projectors [OF assms(1)]
    using assms(1) by simp
qed

lemma length_regular_polygon_vertices:
  "length (regular_polygon_vertices n s) = nat (if py_int n < 3 then 3 else py_int n)"
  by (simp add: regular_polygon_vertices_def Let_def)

lemma lamina_polygon_paired:
  "projectors_paired (lamina_polygon [] shape s scale sa ea)"
proof -
  have "2 \<le> length (regular_polygon_vertices n s)" for n
    by (simp add: length_regular_polygon_vertices) linarith
  then show ?thesis
    unfolding lamina_polygon_def Let_def projectors_paired_info_panel append_Nil
    by (intro paired_polylines) simp_all
qed


lemma upt_3: "[0 ..< 3] = [0, 1, 2]"
  by (simp add: upt_rec)

lemma upt_4: "[0 ..< 4] = [0, 1, 2, 3]"
  by (simp add: upt_rec)

lemma paired_triangle:
  "projectors_paired
     (Line [fs ! 0, fs ! 1, fs ! 2, fs ! 0] LINE_HP
      # Line [ts ! 0, ts ! 1, ts ! 2, ts ! 0] LINE_VP
      # map (\<lambda>i. Line [fs ! i, ts ! i] LINE_CONST) [0 ..< 3])"
  by (simp add: projectors_paired_def view_vertices_def upt_3
      LINE_HP_def LINE_VP_def LINE_CONST_def)

lemma paired_rectangle:
  "projectors_paired
     (Rectangle l t r b LINE_HP
      # Line [ts ! 0, ts ! 1, ts ! 2, ts ! 3, ts ! 0] LINE_VP
      # map (\<lambda>i. Line [[(l, t), (r, t), (r, b), (l, b)] ! i, ts ! i] LINE_CONST) [0 ..< 4])"
  by (simp add: projectors_paired_def view_vertices_def upt_4
      LINE_HP_def LINE_VP_def LINE_CONST_def)

lemma lamina_triangle_paired:
  "projectors_paired (lamina_triangle [] s scale sa ea)"
  unfolding lamina_triangle_def Let_def projectors_paired_info_panel append.simps
  by (rule paired_triangle)

lemma lamina_rectangle_paired:
  "projectors_paired (lamina_rectangle [] shape s scale sa ea)"
  unfolding lamina_rectangle_def Let_def projectors_paired_info_panel append.simps
  by (rule paired_rectangle)

lemma lamina_paired:
  assumes "\<not> isl (draw_lamina [] p)" "p_shape p \<noteq> Some ''circle''"
  shows "projectors_paired (projr (draw_lamina [] p))"
proof -
  define sh where "sh = (case p_shape p of None \<Rightarrow> ''triangle'' | Some v \<Rightarrow> v)"
  define s where "s = or_else (get_none (p_size p)) (or_else (sizes_head (p_sizes p)) 30)"
  define sa where "sa = get_default (p_surface_angle p) 60"
  define ea where "ea = get_default (p_edge_angle_to_VP p) 45"
  define sc where "sc = fit_scale_for_box (max s 100 * (22 / 10)) FRONT_BOX"
  have eq: "draw_lamina [] p =
    (if sh = ''triangle'' then
       (case (sa, ea) of
          (Some sa, Some ea) \<Rightarrow> Inr (lamina_triangle [] s sc sa ea)
        | _ \<Rightarrow> Inl TypeError)
     else if sh = ''square'' \<or> sh = ''rectangle'' then
       (case (sa, ea) of
          (Some sa, Some ea) \<Rightarrow> Inr (lamina_rectangle [] sh s sc sa ea)
        | _ \<Rightarrow> Inl TypeError)
     else if sh = ''pentagon'' \<or> sh = ''hexagon'' \<or> sh = ''polygon'' then
       (case (sa, ea) of
          (Some sa, Some ea) \<Rightarrow> Inr (lamina_polygon [] sh s sc sa ea)
        | _ \<Rightarrow> Inl TypeError)
     else if sh = ''circle'' then
       (case sa of
          Some sa \<Rightarrow> Inr (lamina_circle [] s sc sa)
        | None \<Rightarrow> Inl TypeError)
     else Inr (draw_info_panel [] [[Lit ''Shape not recognized for lamina.'']]))"
    unfolding draw_lamina_def Let_def sh_def s_def sa_def ea_def sc_def ..
  have nc: "sh \<noteq> ''circle''"
    using assms(2) by (cases "p_shape p") (simp_all add: sh_def)
  have diag: "projectors_paired (draw_info_panel [] ls)" for ls
    by (simp add: projectors_paired_info_panel)
       (simp add: projectors_paired_def view_vertices_def)
  show ?thesis
  proof (cases "sh = ''triangle''")
    case True
    then have e: "draw_lamina [] p = (case (sa, ea) of
          (Some sa, Some ea) \<Rightarrow> Inr (lamina_triangle [] s sc sa ea)
        | _ \<Rightarrow> Inl TypeError)"
      unfolding eq by (rule if_P)
    show ?thesis
      using assms(1) unfolding e
      by (cases sa; cases ea) (simp_all add: lamina_triangle_paired)
  next
    case nt: False
    show ?thesis
    proof (cases "sh = ''square'' \<or> sh = ''rectangle''")
      case True
      have e: "draw_lamina [] p = (case (sa, ea) of
          (Some sa, Some ea) \<Rightarrow> Inr (lamina_rectangle [] sh s sc sa ea)
        | _ \<Rightarrow> Inl TypeError)"
        unfolding eq if_not_P [OF nt] using True by (rule if_P)
      show ?thesis
        using assms(1) unfolding e
        by (cases sa; cases ea) (simp_all add: lamina_rectangle_paired)
    next
      case nr: False
      show ?thesis
      proof (cases "sh = ''pentagon'' \<or> sh = ''hexagon'' \<or> sh = ''polygon''")
        case True
        have e: "draw_lamina [] p = (case (sa, ea) of
            (Some sa, Some ea) \<Rightarrow> Inr (lamina_polygon [] sh s sc sa ea)
          | _ \<Rightarrow> Inl TypeError)"
          unfolding eq if_not_P [OF nt] if_not_P [OF nr] using True by (rule if_P)
        show ?thesis
          using assms(1) unfolding e
          by (cases sa; cases ea) (simp_all add: lamina_polygon_paired)
      next
        case np: False
        have e: "draw_lamina [] p
            = Inr (draw_info_panel [] [[Lit ''Shape not recognized for lamina.'']])"
          unfolding eq if_not_P [OF nt] if_not_P [OF nr] if_not_P [OF np] if_not_P [OF nc] ..
        show ?thesis
          unfolding e sum.sel by (rule diag)
      qed
    qed
  qed
qed

lemma draw_point_projector:
  assumes "\<not> isl (draw_point [] p label)"
  shows "\<exists>f t. construction_segments (projr (draw_point [] p label)) = [[f, t]] \<and>
               marker f 6 LINE_HP \<in> set (projr (draw_point [] p label)) \<and>
               marker t 5 LINE_VP \<in> set (projr (draw_point [] p label))"
proof -
  obtain i a where i: "py_float (get_default (p_infront p) 30) = Inr i"
    and a: "py_float (get_default (p_above p) 30) = Inr a"
    using assms by (auto simp add: draw_point_def split: sum.splits)
  let ?sc = "fit_scale_for_box (max (max i a) 100 * 2) FRONT_BOX"
  let ?f = "transform_to_box_coords 0 a FRONT_BOX ?sc"
  let ?t = "transform_to_box_coords 0 i TOP_BOX ?sc"
  have "construction_segments (projr (draw_point [] p label)) = [[?f, ?t]] \<and>
        marker ?f 6 LINE_HP \<in> set (projr (draw_point [] p label)) \<and>
        marker ?t 5 LINE_VP \<in> set (projr (draw_point [] p label))"
    by (simp add: draw_point_def i a Let_def marker_def LINE_CONST_def)
  then show ?thesis by blast
qed

lemma construction_segments_rectangles:
  "construction_segments (map (\<lambda>i. Rectangle (a i) (b i) (c i) (d i) w) ns) = []"
  by (induction ns) simp_all

lemma construction_segments_development:
  "construction_segments (development x y fw fh n) = []"
  unfolding development_def Let_def by (rule construction_segments_rectangles)

lemma draw_prism_no_projectors:
  "construction_segments (draw_prism [] p) = []"
  by (simp add: draw_prism_def solid_cube_def solid_cuboid_def solid_cylinder_def
      solid_cone_def solid_pyramid_def solid_prism_def Let_def split_beta
      construction_segments_append construction_segments_info_panel
      construction_segments_development LINE_HP_def LINE_VP_def LINE_CONST_def)

text \<open>
  C2, as stated: whatever the entity kind, every top-view outline vertex is joined
  to its front-view vertex by a construction segment, for solids too. The cube
  request draws a front and a top square and no construction segment.
\<close>

theorem cube_has_no_projectors:
  "\<not> projectors_paired (draw_prism [] (no_params\<lparr>p_solid_type := Some ''cube''\<rparr>))"
  by (simp add: projectors_paired_def draw_prism_def solid_cube_def no_params_def Let_def
      construction_segments_append construction_segments_info_panel
      view_vertices_append view_vertices_info_panel view_vertices_Cons view_vertices_Nil
      LINE_HP_def LINE_VP_def LINE_CONST_def)

text \<open>
  C2, amended: among the primitives that one request draws, a point has one
  construction segment, between the centres of its two markers; for every line
  and for every lamina that is drawn and is not a circle, the construction
  segments are exactly the segments joining the i-th front-view outline vertex
  to the i-th top-view outline vertex; a solid request draws no construction
  segment at all.
\<close>

theorem projector_pairing_by_kind:
  "(\<not> isl (draw_point [] p label) \<longrightarrow>
      (\<exists>f t. construction_segments (projr (draw_point [] p label)) = [[f, t]] \<and>
             marker f 6 LINE_HP \<in> set (projr (draw_point [] p label)) \<and>
             marker t 5 LINE_VP \<in> set (projr (draw_point [] p label)))) \<and>
   projectors_paired (projr (draw_line [] p)) \<and>
   (\<not> isl (draw_lamina [] p) \<and> p_shape p \<noteq> Some ''circle'' \<longrightarrow>
      projectors_paired (projr (draw_lamina [] p))) \<and>
   construction_segments (draw_prism [] p) = []"
  using draw_point_projector [of p label] draw_line_paired [of p] lamina_paired [of p]
    draw_prism_no_projectors [of p]
  by blast

theorem projector_pairing_by_kind_witness:
  "(\<exists>f t. construction_segments (projr (draw_point [] no_params ''A'')) = [[f, t]] \<and>
          marker f 6 LINE_HP \<in> set (projr (draw_point [] no_params ''A'')) \<and>
          marker t 5 LINE_VP \<in> set (projr (draw_point [] no_params ''A''))) \<and>
   projectors_paired (projr (draw_line [] no_params)) \<and>
   projectors_paired (projr (draw_lamina [] no_params)) \<and>
   construction_segments (draw_prism [] no_params) = []"
proof -
  have 1: "\<not> isl (draw_point [] no_params ''A'')"
    by (simp add: draw_point_def no_params_def Let_def)
  have 2: "\<not> isl (draw_lamina [] no_params) \<and> p_shape no_params \<noteq> Some ''circle''"
    by (simp add: draw_lamina_def no_params_def Let_def)
  show ?thesis
    using projector_pairing_by_kind [of no_params "''A''"] 1 2 by blast
qed

subsection \<open>Layout scale\<close>

text \<open>
  C9, as stated: \<^verbatim>\<open>fit_scale_for_box\<close> returns the minimum of box-width/extent and
  box-height/extent. It does not: on the 100 by 100 box with extent 1 it returns 80,
  because 20 pixels are taken off each side length first.
\<close>

theorem fit_scale_for_box_not_plain_ratio:
  "fit_scale_for_box 1 (0, 0, 100, 100)
     \<noteq> min (real_of_int (100 - 0) / 1) (real_of_int (100 - 0) / 1)"
  by (simp add: fit_scale_for_box_def)

text \<open>
  C9, amended: \<^verbatim>\<open>fit_scale_for_box\<close> is total; it returns exactly 1 when the
  maximum extent is 0, and otherwise the minimum of (box-width - 20)/extent and
  (box-height - 20)/extent.
\<close>

theorem fit_scale_for_box_total:
  "fit_scale_for_box 0 (l, t, r, b) = 1 \<and>
   (m \<noteq> 0 \<longrightarrow>
      fit_scale_for_box m (l, t, r, b)
        = min (real_of_int (r - l - 20) / m) (real_of_int (b - t - 20) / m))"
  by (simp add: fit_scale_for_box_def Let_def)

theorem fit_scale_for_box_total_witness:
  "fit_scale_for_box 0 (36, 36, 664, 430) = 1 \<and>
   fit_scale_for_box 220 (36, 36, 664, 430) = 17 / 10"
  using fit_scale_for_box_total [of 36 36 664 430 220] by simp

subsection \<open>Apparent and true length\<close>

text \<open>
  C1, as stated: the round trip gives back \<open>L\<close> at every angle other than 90, 270, ...
  degrees. At 180 degrees the cosine is \<open>-1\<close> (the float
  \<^verbatim>\<open>math.cos(math.radians(180))\<close> is exactly \<^verbatim>\<open>-1.0\<close> as well),
  \<^verbatim>\<open>apparent_length\<close> takes the absolute value, and the round trip of 1 is \<open>-1\<close>.
\<close>

theorem round_trip_fails_at_180:
  "true_from_apparent exact_cos_deg
     (apparent_length exact_cos_deg (Some 1) (Some 180)) (Some 180) \<noteq> Some 1"
  by (simp add: true_from_apparent_def apparent_length_def exact_cos_deg_def radians_def)

lemma round_trip_nonzero:
  assumes "0 < L" "cos_deg d \<noteq> 0"
  shows "true_from_apparent cos_deg (apparent_length cos_deg (Some L) (Some d)) (Some d)
         = Some (if 0 < cos_deg d then L else - L)"
proof (cases "0 < cos_deg d")
  case True
  then have "\<bar>L * cos_deg d\<bar> = L * cos_deg d"
    using assms(1) by simp
  then show ?thesis
    using True by (simp add: true_from_apparent_def apparent_length_def)
next
  case False
  then have neg: "cos_deg d < 0" using assms(2) by simp
  then have "L * cos_deg d < 0" using assms(1) by (simp add: mult_pos_neg)
  then have "\<bar>L * cos_deg d\<bar> = - (L * cos_deg d)" by simp
  then show ?thesis
    using False assms(2) by (simp add: true_from_apparent_def apparent_length_def)
qed

text \<open>
  C1, amended: for every true length \<open>L > 0\<close>, the round trip gives back \<open>L\<close> at every
  angle whose computed cosine is positive and \<open>-L\<close> at every angle whose computed
  cosine is negative, whatever function computes the cosine. (What happens at
  90 degrees is not part of this statement.)
\<close>

theorem round_trip_by_sign:
  "(0 < L \<longrightarrow> 0 < cos_deg d \<longrightarrow>
      true_from_apparent cos_deg (apparent_length cos_deg (Some L) (Some d)) (Some d)
        = Some L) \<and>
   (0 < L \<longrightarrow> cos_deg d < 0 \<longrightarrow>
      true_from_apparent cos_deg (apparent_length cos_deg (Some L) (Some d)) (Some d)
        = Some (- L))"
  using round_trip_nonzero [of L cos_deg d] by auto

theorem round_trip_by_sign_witness:
  "true_from_apparent exact_cos_deg
     (apparent_length exact_cos_deg (Some 80) (Some 0)) (Some 0) = Some 80 \<and>
   true_from_apparent exact_cos_deg
     (apparent_length exact_cos_deg (Some 80) (Some 180)) (Some 180) = Some (- 80)"
  using round_trip_by_sign [of 80 exact_cos_deg 0] round_trip_by_sign [of 80 exact_cos_deg 180]
  by (simp add: exact_cos_deg_def radians_def)

text \<open>
  The guard at a right angle: whenever the computed cosine of 90 degrees is not
  exactly zero, as it is not for the float cosine, \<^verbatim>\<open>true_from_apparent\<close> does not
  return \<^verbatim>\<open>None\<close> there but the quotient by that small number.
\<close>

lemma guard_misses_nonzero_cosine:
  "cos_deg 90 \<noteq> 0 \<Longrightarrow>
   true_from_apparent cos_deg (Some a) (Some 90) = Some (a / cos_deg 90)"
  by (simp add: true_from_apparent_def)

subsection \<open>Regular polygons\<close>

lemma py_int_of_int [simp]: "py_int (real_of_int n) = n"
  by (simp add: py_int_def)

lemma chord_alg:
  fixes R c d s t :: real
  shows "(R * c - R * d)\<^sup>2 + (R * s - R * t)\<^sup>2
         = R\<^sup>2 * ((c\<^sup>2 + s\<^sup>2) + (d\<^sup>2 + t\<^sup>2) - 2 * (c * d + s * t))"
  by (simp add: power2_eq_square algebra_simps)

lemma chord:
  fixes R a b :: real
  shows "(R * cos a - R * cos b)\<^sup>2 + (R * sin a - R * sin b)\<^sup>2 = (2 * R * sin ((a - b) / 2))\<^sup>2"
proof -
  have "(R * cos a - R * cos b)\<^sup>2 + (R * sin a - R * sin b)\<^sup>2
        = R\<^sup>2 * (2 - 2 * cos (a - b))"
    unfolding chord_alg by (simp add: cos_diff)
  also have "\<dots> = R\<^sup>2 * (4 * (sin ((a - b) / 2))\<^sup>2)"
  proof -
    have "2 * ((a - b) / 2) = a - b" by simp
    then have "cos (a - b) = 1 - 2 * (sin ((a - b) / 2))\<^sup>2"
      using cos_double_sin[of "(a - b) / 2"] by (simp only:)
    then show ?thesis by simp
  qed
  also have "\<dots> = (2 * R * sin ((a - b) / 2))\<^sup>2"
    by (simp add: power2_eq_square)
  finally show ?thesis .
qed

lemma pdist_vertex:
  "pdist (polygon_vertex R n i) (polygon_vertex R n j)
     = \<bar>2 * R * sin (pi * (real i - real j) / real_of_int n)\<bar>"
proof -
  have "(- pi / 2 + 2 * pi * real i / real_of_int n - (- pi / 2 + 2 * pi * real j / real_of_int n)) / 2
        = pi * (real i - real j) / real_of_int n"
    by (simp add: diff_divide_distrib right_diff_distrib)
  then show ?thesis
    unfolding pdist_def polygon_vertex_def Let_def fst_conv snd_conv chord
    by simp
qed


lemma regular_polygon_vertices_int:
  "3 \<le> n \<Longrightarrow> regular_polygon_vertices (real_of_int n) s
     = map (polygon_vertex (s / (2 * sin (pi / real_of_int n))) n) [0 ..< nat n]"
  by (simp add: regular_polygon_vertices_def Let_def)

lemma sin_pi_over_pos:
  assumes "3 \<le> (n::int)"
  shows "0 < sin (pi / real_of_int n)"
proof -
  have n: "1 < real_of_int n" using assms by simp
  then have "pi / real_of_int n < pi"
    by (simp add: divide_less_eq)
  moreover have "0 < pi / real_of_int n" using n by simp
  ultimately show ?thesis by (rule sin_gt_zero[rotated])
qed

lemma pdist_origin:
  "pdist (polygon_vertex R n i) (0, 0) = \<bar>R\<bar>"
proof -
  have "(R * cos a)\<^sup>2 + (R * sin a)\<^sup>2 = R\<^sup>2" for a :: real
  proof -
    have "(R * cos a)\<^sup>2 + (R * sin a)\<^sup>2 = R\<^sup>2 * ((cos a)\<^sup>2 + (sin a)\<^sup>2)"
      by (simp only: power_mult_distrib distrib_left)
    then show ?thesis by simp
  qed
  then show ?thesis
    by (simp add: pdist_def polygon_vertex_def Let_def)
qed

lemma side_next:
  assumes "3 \<le> n" "0 < s" "i < nat n"
  shows "pdist (polygon_vertex (s / (2 * sin (pi / real_of_int n))) n i)
               (polygon_vertex (s / (2 * sin (pi / real_of_int n))) n ((i + 1) mod nat n)) = s"
proof -
  let ?t = "pi / real_of_int n"
  have pos: "0 < sin ?t" using assms(1) by (rule sin_pi_over_pos)
  have n0: "real_of_int n \<noteq> 0" using assms(1) by simp
  have "\<bar>sin (pi * (real i - real ((i + 1) mod nat n)) / real_of_int n)\<bar> = sin ?t"
  proof (cases "i + 1 < nat n")
    case True
    then have "real i - real ((i + 1) mod nat n) = - 1" by simp
    then show ?thesis using pos by simp
  next
    case False
    then have i: "i + 1 = nat n" using assms(3) by simp
    then have "real i = real_of_int n - 1" using assms(1) by linarith
    moreover have "(i + 1) mod nat n = 0" using i by simp
    ultimately have "pi * (real i - real ((i + 1) mod nat n)) / real_of_int n
                     = pi * (real_of_int n - 1) / real_of_int n"
      by simp
    also have "\<dots> = pi - ?t"
      using n0 by (simp add: field_simps)
    finally have "pi * (real i - real ((i + 1) mod nat n)) / real_of_int n = pi - ?t" .
    then show ?thesis using pos by (simp add: sin_diff)
  qed
  then have "\<bar>2 * (s / (2 * sin ?t)) * sin (pi * (real i - real ((i + 1) mod nat n)) / real_of_int n)\<bar>
             = 2 * (s / (2 * sin ?t)) * sin ?t"
    using pos assms(2) by (simp add: abs_mult)
  also have "\<dots> = s" using pos by simp
  finally show ?thesis by (simp only: pdist_vertex)
qed

text \<open>
  C8: for every integer \<open>n \<ge> 3\<close> and side \<open>s > 0\<close>, \<^verbatim>\<open>regular_polygon_vertices(n, s)\<close>
  returns exactly \<open>n\<close> vertices, each at distance \<open>s / (2 sin (pi / n))\<close> from the
  origin, and consecutive vertices (the last with the first) are \<open>s\<close> apart.
\<close>

theorem regular_polygon_vertices_regular:
  assumes "3 \<le> n" and "0 < s"
  shows "length (regular_polygon_vertices (real_of_int n) s) = nat n \<and>
         (\<forall>i < nat n. pdist (regular_polygon_vertices (real_of_int n) s ! i) (0, 0)
                         = s / (2 * sin (pi / real_of_int n))) \<and>
         (\<forall>i < nat n. pdist (regular_polygon_vertices (real_of_int n) s ! i)
                              (regular_polygon_vertices (real_of_int n) s ! ((i + 1) mod nat n)) = s)"
proof (intro conjI allI impI)
  show "length (regular_polygon_vertices (real_of_int n) s) = nat n"
    using assms(1) by (simp add: regular_polygon_vertices_int)
next
  fix i assume "i < nat n"
  moreover have "\<bar>s / (2 * sin (pi / real_of_int n))\<bar> = s / (2 * sin (pi / real_of_int n))"
    using assms sin_pi_over_pos[of n] by simp
  ultimately show "pdist (regular_polygon_vertices (real_of_int n) s ! i) (0, 0)
                         = s / (2 * sin (pi / real_of_int n))"
    using assms(1) by (simp only: regular_polygon_vertices_int pdist_origin nth_map length_upt nth_upt minus_nat.diff_0 add_0)
next
  fix i assume i: "i < nat n"
  then have "(i + 1) mod nat n < nat n" by simp
  then show "pdist (regular_polygon_vertices (real_of_int n) s ! i)
                   (regular_polygon_vertices (real_of_int n) s ! ((i + 1) mod nat n)) = s"
    using i assms side_next[of n s i] by (simp add: regular_polygon_vertices_int)
qed

theorem regular_polygon_vertices_regular_witness:
  "length (regular_polygon_vertices (real_of_int 4) 1) = 4 \<and>
   pdist (regular_polygon_vertices (real_of_int 4) 1 ! 0) (0, 0)
     = 1 / (2 * sin (pi / real_of_int 4)) \<and>
   pdist (regular_polygon_vertices (real_of_int 4) 1 ! 3)
         (regular_polygon_vertices (real_of_int 4) 1 ! 0) = 1"
proof -
  have h: "(3::int) \<le> 4" "(0::real) < 1" by simp_all
  note r = regular_polygon_vertices_regular [OF h]
  have a: "length (regular_polygon_vertices (real_of_int 4) 1) = 4"
    using r by simp
  have b: "pdist (regular_polygon_vertices (real_of_int 4) 1 ! 0) (0, 0)
             = 1 / (2 * sin (pi / real_of_int 4))"
    using r by simp
  have "(3::nat) < nat 4" by simp
  then have "pdist (regular_polygon_vertices (real_of_int 4) 1 ! 3)
         (regular_polygon_vertices (real_of_int 4) 1 ! ((3 + 1) mod nat 4)) = 1"
    using r by blast
  then have c: "pdist (regular_polygon_vertices (real_of_int 4) 1 ! 3)
         (regular_polygon_vertices (real_of_int 4) 1 ! 0) = 1"
    by simp
  show ?thesis using a b c by blast
qed

subsection \<open>The pentagonal prism\<close>

lemma draw_info_panel_two:
  "draw_info_panel draw [l1, l2]
     = draw @ [Rectangle 710 36 1364 864 1, Text (718, 44) l1, Text (718, 62) l2]"
  by (simp add: draw_info_panel_def INFO_BOX_eq)

lemma py_int_numeral [simp]: "py_int (numeral k) = numeral k"
  by (simp add: py_int_def)

lemma prism_canvas:
  "draw_prism [] prism_req =
     [Rectangle 710 36 1364 864 1,
      Text (718, 44) [Lit ''Regular prism n='', IntNum 5, Lit '', side='', Num 30,
                      Lit '' mm, height='', Num 80, Lit '' mm''],
      Text (718, 62) [Lit ''Lateral development shown below''],
      Line (map (\<lambda>p. (350 + fst p * (187 / 120), 667 + snd p * (187 / 120)))
                (regular_polygon_vertices 5 30)
            @ [map (\<lambda>p. (350 + fst p * (187 / 120), 667 + snd p * (187 / 120)))
                   (regular_polygon_vertices 5 30) ! 0]) LINE_VP,
      Rectangle
        (350 - (Max (set (map fst (regular_polygon_vertices 5 30)))
                - Min (set (map fst (regular_polygon_vertices 5 30)))) * (187 / 120) / 2)
        (233 - 80 * (187 / 120) / 2)
        (350 + (Max (set (map fst (regular_polygon_vertices 5 30)))
                - Min (set (map fst (regular_polygon_vertices 5 30)))) * (187 / 120) / 2)
        (233 + 80 * (187 / 120) / 2) LINE_HP]
     @ development 730 36 (30 * (187 / 120)) (80 * (187 / 120)) 5"
  by (simp add: draw_prism_def solid_prism_def prism_req_def no_params_def Let_def
      fit_scale_front center_of_def draw_info_panel_two
      INFO_BOX_eq FRONT_BOX_eq TOP_BOX_eq mult.commute)

lemma development_five:
  "development 730 36 (187 / 4) (374 / 3) 5 =
     [Rectangle 730 36 (3107 / 4) (482 / 3) LINE_HP,
      Rectangle (3131 / 4) 36 (1659 / 2) (482 / 3) LINE_HP,
      Rectangle (1671 / 2) 36 (3529 / 4) (482 / 3) LINE_HP,
      Rectangle (3553 / 4) 36 935 (482 / 3) LINE_HP,
      Rectangle 941 36 (3951 / 4) (482 / 3) LINE_HP]"
  by (simp add: development_def Let_def upt_rec)


lemma pdist_placed:
  "pdist (cx + fst p * sc, cy + snd p * sc) (cx + fst q * sc, cy + snd q * sc)
     = \<bar>sc\<bar> * pdist p q"
proof -
  have "(cx + fst p * sc - (cx + fst q * sc))\<^sup>2 + (cy + snd p * sc - (cy + snd q * sc))\<^sup>2
        = sc\<^sup>2 * ((fst p - fst q)\<^sup>2 + (snd p - snd q)\<^sup>2)"
    by (simp add: power2_eq_square algebra_simps)
  then show ?thesis
    by (simp add: pdist_def real_sqrt_mult)
qed

lemma pentagon_side:
  assumes "i < 5"
  shows "pdist (map (\<lambda>p. (350 + fst p * (187 / 120), 667 + snd p * (187 / 120)))
                    (regular_polygon_vertices 5 30) ! i)
               (map (\<lambda>p. (350 + fst p * (187 / 120), 667 + snd p * (187 / 120)))
                    (regular_polygon_vertices 5 30) ! ((i + 1) mod 5))
         = 30 * (187 / 120)"
proof -
  let ?R = "30 / (2 * sin (pi / real_of_int 5))"
  have r: "regular_polygon_vertices 5 30 = map (polygon_vertex ?R 5) [0 ..< 5]"
    using regular_polygon_vertices_int [of 5 30] by simp
  have j: "(i + 1) mod 5 < 5" by simp
  have "pdist (polygon_vertex ?R 5 i) (polygon_vertex ?R 5 ((i + 1) mod nat 5)) = 30"
    using assms by (intro side_next) simp_all
  then have "pdist (polygon_vertex ?R 5 i) (polygon_vertex ?R 5 ((i + 1) mod 5)) = 30"
    by simp
  then show ?thesis
    unfolding r using assms j
    by (simp only: nth_map length_map length_upt nth_upt minus_nat.diff_0 add_0 pdist_placed)
qed

text \<open>
  C7, as stated: the five rectangles of the development are placed edge to edge.
  They are drawn 6 pixels apart: the first one (primitive 5 of the canvas) ends at
  column 776.75 and the second one (primitive 6) starts at column 782.75.
\<close>

theorem prism_development_has_gaps:
  "draw_prism [] prism_req ! 5 = Rectangle 730 36 (3107 / 4) (482 / 3) LINE_HP \<and>
   draw_prism [] prism_req ! 6 = Rectangle (3131 / 4) 36 (1659 / 2) (482 / 3) LINE_HP \<and>
   (3107 / 4 :: real) \<noteq> 3131 / 4"
  by (simp add: prism_canvas development_five)

text \<open>
  C7, amended: for the prism request with sizes 5, 30, 80 the derived scale is
  187/120 pixels per millimetre; the top view is the closed outline of a regular
  pentagon whose five sides are 30 mm at that scale; the front view is a rectangle
  whose width is the width of the bounding box of the pentagon and whose height
  is 80 mm at that scale; and the development is exactly five rectangles of 30 mm
  by 80 mm at that scale, side by side with a gap of 6 pixels between neighbours,
  starting at column 730, to the right of both view boxes.
\<close>

theorem prism_5_30_80:
  "draw_prism [] prism_req =
     [Rectangle 710 36 1364 864 1,
      Text (718, 44) [Lit ''Regular prism n='', IntNum 5, Lit '', side='', Num 30,
                      Lit '' mm, height='', Num 80, Lit '' mm''],
      Text (718, 62) [Lit ''Lateral development shown below''],
      Line (map (\<lambda>p. (350 + fst p * (187 / 120), 667 + snd p * (187 / 120)))
                (regular_polygon_vertices 5 30)
            @ [map (\<lambda>p. (350 + fst p * (187 / 120), 667 + snd p * (187 / 120)))
                   (regular_polygon_vertices 5 30) ! 0]) LINE_VP,
      Rectangle
        (350 - (Max (set (map fst (regular_polygon_vertices 5 30)))
                - Min (set (map fst (regular_polygon_vertices 5 30)))) * (187 / 120) / 2)
        (233 - 80 * (187 / 120) / 2)
        (350 + (Max (set (map fst (regular_polygon_vertices 5 30)))
                - Min (set (map fst (regular_polygon_vertices 5 30)))) * (187 / 120) / 2)
        (233 + 80 * (187 / 120) / 2) LINE_HP,
      Rectangle 730 36 (730 + 30 * (187 / 120)) (36 + 80 * (187 / 120)) LINE_HP,
      Rectangle (730 + 1 * (30 * (187 / 120) + 6)) 36
                (730 + 1 * (30 * (187 / 120) + 6) + 30 * (187 / 120))
                (36 + 80 * (187 / 120)) LINE_HP,
      Rectangle (730 + 2 * (30 * (187 / 120) + 6)) 36
                (730 + 2 * (30 * (187 / 120) + 6) + 30 * (187 / 120))
                (36 + 80 * (187 / 120)) LINE_HP,
      Rectangle (730 + 3 * (30 * (187 / 120) + 6)) 36
                (730 + 3 * (30 * (187 / 120) + 6) + 30 * (187 / 120))
                (36 + 80 * (187 / 120)) LINE_HP,
      Rectangle (730 + 4 * (30 * (187 / 120) + 6)) 36
                (730 + 4 * (30 * (187 / 120) + 6) + 30 * (187 / 120))
                (36 + 80 * (187 / 120)) LINE_HP] \<and>
   length (regular_polygon_vertices 5 30) = 5 \<and>
   map (\<lambda>i. pdist (map (\<lambda>p. (350 + fst p * (187 / 120), 667 + snd p * (187 / 120)))
                         (regular_polygon_vertices 5 30) ! i)
                    (map (\<lambda>p. (350 + fst p * (187 / 120), 667 + snd p * (187 / 120)))
                         (regular_polygon_vertices 5 30) ! ((i + 1) mod 5)))
       [0, 1, 2, 3, 4]
     = [30 * (187 / 120), 30 * (187 / 120), 30 * (187 / 120), 30 * (187 / 120),
        30 * (187 / 120)] \<and>
   fit_scale_for_box (max (30 * 2) 80 * 3) FRONT_BOX = 187 / 120 \<and>
   real_of_int (fst (snd (snd FRONT_BOX))) < 730 \<and>
   real_of_int (fst (snd (snd TOP_BOX))) < 730"
proof -
  have len: "length (regular_polygon_vertices 5 30) = 5"
    using regular_polygon_vertices_int [of 5 30] by simp
  have sides: "map (\<lambda>i. pdist (map (\<lambda>p. (350 + fst p * (187 / 120), 667 + snd p * (187 / 120)))
                         (regular_polygon_vertices 5 30) ! i)
                    (map (\<lambda>p. (350 + fst p * (187 / 120), 667 + snd p * (187 / 120)))
                         (regular_polygon_vertices 5 30) ! ((i + 1) mod 5)))
       [0, 1, 2, 3, 4]
     = [30 * (187 / 120), 30 * (187 / 120), 30 * (187 / 120), 30 * (187 / 120),
        30 * (187 / 120)]"
    using pentagon_side [of 0] pentagon_side [of 1] pentagon_side [of 2]
      pentagon_side [of 3] pentagon_side [of 4]
    by (simp only: list.map)
  have boxes: "fit_scale_for_box (max (30 * 2) 80 * 3) FRONT_BOX = 187 / 120"
    "real_of_int (fst (snd (snd FRONT_BOX))) < 730"
    "real_of_int (fst (snd (snd TOP_BOX))) < 730"
    by (simp_all add: fit_scale_front FRONT_BOX_eq TOP_BOX_eq)
  have canvas: "draw_prism [] prism_req = [Rectangle 710 36 1364 864 1,
      Text (718, 44) [Lit ''Regular prism n='', IntNum 5, Lit '', side='', Num 30,
                      Lit '' mm, height='', Num 80, Lit '' mm''],
      Text (718, 62) [Lit ''Lateral development shown below''],
      Line (map (\<lambda>p. (350 + fst p * (187 / 120), 667 + snd p * (187 / 120)))
                (regular_polygon_vertices 5 30)
            @ [map (\<lambda>p. (350 + fst p * (187 / 120), 667 + snd p * (187 / 120)))
                   (regular_polygon_vertices 5 30) ! 0]) LINE_VP,
      Rectangle
        (350 - (Max (set (map fst (regular_polygon_vertices 5 30)))
                - Min (set (map fst (regular_polygon_vertices 5 30)))) * (187 / 120) / 2)
        (233 - 80 * (187 / 120) / 2)
        (350 + (Max (set (map fst (regular_polygon_vertices 5 30)))
                - Min (set (map fst (regular_polygon_vertices 5 30)))) * (187 / 120) / 2)
        (233 + 80 * (187 / 120) / 2) LINE_HP,
      Rectangle 730 36 (730 + 30 * (187 / 120)) (36 + 80 * (187 / 120)) LINE_HP,
      Rectangle (730 + 1 * (30 * (187 / 120) + 6)) 36
                (730 + 1 * (30 * (187 / 120) + 6) + 30 * (187 / 120))
                (36 + 80 * (187 / 120)) LINE_HP,
      Rectangle (730 + 2 * (30 * (187 / 120) + 6)) 36
                (730 + 2 * (30 * (187 / 120) + 6) + 30 * (187 / 120))
                (36 + 80 * (187 / 120)) LINE_HP,
      Rectangle (730 + 3 * (30 * (187 / 120) + 6)) 36
                (730 + 3 * (30 * (187 / 120) + 6) + 30 * (187 / 120))
                (36 + 80 * (187 / 120)) LINE_HP,
      Rectangle (730 + 4 * (30 * (187 / 120) + 6)) 36
                (730 + 4 * (30 * (187 / 120) + 6) + 30 * (187 / 120))
                (36 + 80 * (187 / 120)) LINE_HP]"
    by (simp add: prism_canvas development_five)
  show ?thesis
    using canvas len sides boxes by (intro conjI)
qed

end
